theory Spec2Isabelle
  imports Complex_Main "HOL-Library.Sublist"
begin

section \<open>JavaScript values the service layer handles\<close>

text \<open>
  The functions of \<^verbatim>\<open>services/gemini.ts\<close> are \<^verbatim>\<open>async\<close>: a call ends by returning a
  value (the promise resolves) or by throwing (the promise rejects). Both ends are
  values of the model. The calls of \<^verbatim>\<open>console.error\<close> in the \<^verbatim>\<open>catch\<close> blocks are left
  out: they change nothing that a function returns.
\<close>

datatype 'a outcome = Throws | Returns 'a

text \<open>
  Strings are lists of code units. The model covers the strings whose code units are
  below 256 (Latin-1), on which \<^verbatim>\<open>String.prototype.toLowerCase\<close> maps \<^verbatim>\<open>A\<close>..\<^verbatim>\<open>Z\<close>
  (65..90) and the capital letters 192..222 other than the multiplication sign 215 to
  the code unit 32 higher, that is, it sets the bit of weight 32, and leaves every
  other code unit as it is.
\<close>

definition isUpperCase :: "char \<Rightarrow> bool" where
  "isUpperCase c =
     (let n = (of_char c :: nat)
      in (65 \<le> n \<and> n \<le> 90) \<or> (192 \<le> n \<and> n \<le> 222 \<and> n \<noteq> 215))"

definition toLowerCase_char :: "char \<Rightarrow> char" where
  "toLowerCase_char c =
     (if isUpperCase c
      then (case c of Char b0 b1 b2 b3 b4 b5 b6 b7 \<Rightarrow> Char b0 b1 b2 b3 b4 True b6 b7)
      else c)"

definition toLowerCase :: "string \<Rightarrow> string" where
  "toLowerCase s = map toLowerCase_char s"

text \<open>\<^verbatim>\<open>s.includes(k)\<close>: \<^verbatim>\<open>k\<close> occurs in \<^verbatim>\<open>s\<close> as a contiguous run, searched from the left.\<close>

fun includes_str :: "string \<Rightarrow> string \<Rightarrow> bool" where
  "includes_str [] k = (k = [])"
| "includes_str (c # cs) k = (prefix k (c # cs) \<or> includes_str cs k)"

text \<open>A template literal prints an undefined value as the word \<^verbatim>\<open>undefined\<close>.\<close>

definition interpolate :: "string option \<Rightarrow> string" where
  "interpolate v = (case v of None \<Rightarrow> ''undefined'' | Some s \<Rightarrow> s)"

text \<open>
  What \<^verbatim>\<open>JSON.parse\<close> returns. A number is modelled by the real it denotes. An object
  is the list of its members in the order of insertion, each key once; \<^verbatim>\<open>null\<close> is also
  the value the functions below return for "no result".
\<close>

datatype json =
    JNull
  | JBool bool
  | JNumber real
  | JString string
  | JArray "json list"
  | JObject "(string \<times> json) list"

text \<open>Reading a property, \<^verbatim>\<open>v.key\<close>; \<open>None\<close> is \<^verbatim>\<open>undefined\<close>.\<close>

fun jsonField :: "json \<Rightarrow> string \<Rightarrow> json option" where
  "jsonField (JObject kvs) key = map_of kvs key"
| "jsonField _ key = None"

text \<open>
  The reads the presentation layer makes of a forecast: \<^verbatim>\<open>forecast.scenarios\<close>, an array,
  and \<^verbatim>\<open>scenario.type\<close>.
\<close>

definition scenarios :: "json \<Rightarrow> json list" where
  "scenarios forecast =
     (case jsonField forecast ''scenarios'' of Some (JArray xs) \<Rightarrow> xs | _ \<Rightarrow> [])"

definition scenarioType :: "json \<Rightarrow> json option" where
  "scenarioType scenario = jsonField scenario ''type''"

section \<open>The types of \<^verbatim>\<open>types.ts\<close>\<close>

record WebSource =
  uri :: string
  title :: string

record GroundingChunk =
  web :: "WebSource option"

datatype Sentiment = bullish | bearish | neutral

record AnalysisResult =
  markdown :: string
  groundingChunks :: "GroundingChunk list option"
  sentiment :: Sentiment

datatype AnalysisMode = QUICK | DEEP

datatype Market = US | IN

section \<open>The generation service\<close>

text \<open>
  The client \<^verbatim>\<open>ai.models\<close> is outside the repository. Its two methods are parameters of
  the model: \<^verbatim>\<open>generateContent\<close> maps a request to a response or throws, and
  \<^verbatim>\<open>generateContentStream\<close> maps a request to a stream or throws. So is \<^verbatim>\<open>JSON.parse\<close>, a
  function from a text to a value that throws on a text that is not JSON.
\<close>

datatype Schema =
    TypeString "string option" "string list option"
  | TypeNumber
  | TypeArray Schema "string option"
  | TypeObject "(string \<times> Schema) list" "string list"

record Request =
  model :: string
  contents :: string
  googleSearch :: bool
  systemInstruction :: "string option"
  thinkingBudget :: "nat option"
  responseMimeType :: "string option"
  responseSchema :: "Schema option"

datatype GroundingMetadata = GroundingMetadata "GroundingChunk list option"

record Candidate =
  groundingMetadata :: "GroundingMetadata option"

record Response =
  responseText :: "string option"
  candidates :: "Candidate list option"

text \<open>
  A stream is the finite sequence of what each step of the \<^verbatim>\<open>for await\<close> loop receives:
  a chunk, or a throw of the transport, after which nothing more is read.
\<close>

type_synonym Stream = "Response outcome list"

text \<open>
  The caller's \<^verbatim>\<open>onStream\<close> is a procedure on the caller's own state \<open>'s\<close>; it may
  throw as well.
\<close>

type_synonym 's Callback = "string \<Rightarrow> 's \<Rightarrow> unit outcome \<times> 's"

section \<open>\<^verbatim>\<open>getLivePrice\<close>\<close>

definition pricePrompt :: "string \<Rightarrow> string" where
  \<open>pricePrompt symbol =
     ''Find the current real-time price of stock symbol "'' @
     symbol @
     ''". \<newline>'' @
     ''    Return a JSON object with:\<newline>'' @
     ''    - price (number)\<newline>'' @
     ''    - currency (string, e.g., USD, INR, EUR)\<newline>'' @
     ''    - exchange (string, e.g., NYSE, NSE, NASDAQ)\<newline>'' @
     ''    \<newline>'' @
     ''    If the symbol exists on multiple exchanges (like ICICI Bank on NSE vs IBN on NYSE), choose the primary domestic exchange unless the symbol explicitly implies the ADR.''\<close>

definition priceSchema :: Schema where
  "priceSchema =
     TypeObject
       [(''price'', TypeNumber),
        (''currency'', TypeString None None),
        (''exchange'', TypeString None None)]
       [''price'', ''currency'', ''exchange'']"

definition priceRequest :: "string \<Rightarrow> Request" where
  "priceRequest symbol =
     \<lparr>model = ''gemini-2.5-flash'', contents = pricePrompt symbol, googleSearch = True,
      systemInstruction = None, thinkingBudget = None,
      responseMimeType = Some ''application/json'', responseSchema = Some priceSchema\<rparr>"

definition getLivePrice ::
  "(Request \<Rightarrow> Response outcome) \<Rightarrow> (string \<Rightarrow> json outcome) \<Rightarrow> string \<Rightarrow> json outcome" where
  "getLivePrice generateContent JSON_parse symbol =
     (case generateContent (priceRequest symbol) of
        Throws \<Rightarrow> Returns JNull
      | Returns response \<Rightarrow>
          (case responseText response of
             None \<Rightarrow> Returns JNull
           | Some t \<Rightarrow>
               if t \<noteq> []
               then (case JSON_parse t of Throws \<Rightarrow> Returns JNull | Returns v \<Rightarrow> Returns v)
               else Returns JNull))"

section \<open>\<^verbatim>\<open>analyzeStock\<close>\<close>

definition deepSystemInstruction :: "string" where
  \<open>deepSystemInstruction =
     ''You are a legendary "Master Investor" with 70+ years of experience. You do not write generic reports; you write definitive, data-dense "Business Owner" breakdowns.\<newline>'' @
     ''\<newline>'' @
     ''    Your goal is to provide specific numbers, specific names, and specific dates. Avoid vague phrases like "good performance."\<newline>'' @
     ''\<newline>'' @
     ''    CRITICAL: Detect the correct Exchange and Currency. \<newline>'' @
     ''    - If user asks for "ICICI Bank" (NSE), do NOT quote the "IBN" (NYSE) price. \<newline>'' @
     ''    - Quote prices in the local currency.\<newline>'' @
     ''\<newline>'' @
     ''    MANDATORY DATA POINTS TO FIND & INCLUDE:\<newline>'' @
     ''    - Live Price, Market Cap, P/E Ratio.\<newline>'' @
     ''    - For Banks: CASA Ratio, Net Interest Margin (NIM), Net NPA, PCR (Provision Coverage Ratio).\<newline>'' @
     ''    - For Tech: Retention Rates, CAC/LTV, Cloud Growth % (if applicable).\<newline>'' @
     ''    - Management Names: Specifically name the CEO and their key strategic shifts.\<newline>'' @
     ''    - Valuation: Compare Current P/E vs 5-Year Median P/E.\<newline>'' @
     ''\<newline>'' @
     ''    STRUCTURE YOUR RESPONSE EXACTLY LIKE THIS:\<newline>'' @
     ''\<newline>'' @
     ''    ### Executive Summary: The 30-Second Snapshot\<newline>'' @
     ''    (Bullet points of Price [with Currency], Valuation, and a 1-word Verdict: Buy/Sell/Wait)\<newline>'' @
     ''\<newline>'' @
     ''    ### I. The Business & The Moat (The Engine)\<newline>'' @
     ''    - Explain the business model simply.\<newline>'' @
     ''    - **The Moat:** specifically identify the Cost Advantage (e.g. CASA %), Switching Costs, or Network Effects.\<newline>'' @
     ''    - **The Shift:** How has the business changed in the last 5 years? (e.g. Corporate to Retail).\<newline>'' @
     ''\<newline>'' @
     ''    ### II. The Management (The Jockey)\<newline>'' @
     ''    - **The Leader:** Name them. Are they a "Grower" or a "Consolidator"?\<newline>'' @
     ''    - **Integrity Check:** Any red flags?\<newline>'' @
     ''    - **Skin in the Game:** Do they own stock?\<newline>'' @
     ''\<newline>'' @
     ''    ### III. The Financial Microscope (Deep Dive)\<newline>'' @
     ''    - Provide a data table or list of key metrics (ROE, ROA, Margins).\<newline>'' @
     ''    - **The "Owner Earnings" Test:** Is cash flow growing?\<newline>'' @
     ''    - **Asset Quality:** (Crucial for lenders) - State the Net NPA %.\<newline>'' @
     ''\<newline>'' @
     ''    ### IV. Valuation & Targets (The Price)\<newline>'' @
     ''    - **Is it Cheap?** Compare P/E to historical averages.\<newline>'' @
     ''    - **The "Buffett" Test:** Is it a wonderful business at a fair price?\<newline>'' @
     ''\<newline>'' @
     ''    ### V. Predictions & Future Outlook (12-24 Months)\<newline>'' @
     ''    - **Consensus Targets:** Estimate a specific price range for 12 months out based on earnings growth.\<newline>'' @
     ''    - **The Catalyst:** What specific event could trigger a rally? (e.g. Rate cuts, IPO of subsidiary).\<newline>'' @
     ''    - **The Risk:** What is the #1 thing that could kill the thesis?\<newline>'' @
     ''\<newline>'' @
     ''    ### VI. Final Verdict\<newline>'' @
     ''    (Definitive conclusion for a long-term holder)''\<close>

definition deepPrompt :: "string \<Rightarrow> string" where
  \<open>deepPrompt symbol =
     ''Conduct a rigorous, data-heavy "Master Investor" analysis of '' @
     symbol @
     ''. Get every single detail. finding specific latest quarterly numbers (NPA, Margins, CASA) and Management details. Include a specific Price Prediction section.''\<close>

definition quickSystemInstruction :: "string" where
  \<open>quickSystemInstruction =
     ''You are MarketMind, a senior financial analyst.\<newline>'' @
     ''    Provide a concise snapshot of price, recent news, and technical stance.\<newline>'' @
     ''    Always use Google Search to get the latest price and news.''\<close>

definition quickPrompt :: "string \<Rightarrow> string" where
  \<open>quickPrompt symbol =
     ''Analyze '' @
     symbol @
     ''. Provide a structured report including Current Price (approx), Key Catalysts, Risks, and a Verdict (Buy/Sell/Hold).''\<close>

text \<open>\<^verbatim>\<open>chunk.text || ""\<close>: an absent text reads as the empty string.\<close>

definition chunkText :: "Response \<Rightarrow> string" where
  "chunkText chunk = (case responseText chunk of None \<Rightarrow> [] | Some t \<Rightarrow> t)"

text \<open>
  The loop \<^verbatim>\<open>for await (const chunk of result)\<close>, with the variables \<^verbatim>\<open>fullText\<close> and
  \<^verbatim>\<open>finalResponse\<close> it updates and the state of the caller that \<^verbatim>\<open>onStream\<close> changes.
\<close>

fun forAwait ::
  "'s Callback option \<Rightarrow> Stream \<Rightarrow> string \<Rightarrow> Response option \<Rightarrow> 's
     \<Rightarrow> (string \<times> Response option) outcome \<times> 's" where
  "forAwait onStream [] fullText finalResponse s = (Returns (fullText, finalResponse), s)"
| "forAwait onStream (Throws # rest) fullText finalResponse s = (Throws, s)"
| "forAwait onStream (Returns chunk # rest) fullText finalResponse s =
     (let fullText' = fullText @ chunkText chunk
      in case onStream of
           None \<Rightarrow> forAwait onStream rest fullText' (Some chunk) s
         | Some f \<Rightarrow>
             (case f fullText' s of
                (Throws, s') \<Rightarrow> (Throws, s')
              | (Returns u, s') \<Rightarrow> forAwait onStream rest fullText' (Some chunk) s'))"

text \<open>\<^verbatim>\<open>finalResponse?.candidates?.[0]?.groundingMetadata?.groundingChunks || []\<close>\<close>

definition lastGroundingChunks :: "Response option \<Rightarrow> GroundingChunk list" where
  "lastGroundingChunks finalResponse =
     (case finalResponse of
        None \<Rightarrow> []
      | Some r \<Rightarrow>
          (case candidates r of
             None \<Rightarrow> []
           | Some [] \<Rightarrow> []
           | Some (c # cs) \<Rightarrow>
               (case groundingMetadata c of
                  None \<Rightarrow> []
                | Some (GroundingMetadata None) \<Rightarrow> []
                | Some (GroundingMetadata (Some chunks)) \<Rightarrow> chunks)))"

text \<open>The sentiment rule applied to the full text once the stream has ended.\<close>

definition determineSentiment :: "string \<Rightarrow> Sentiment" where
  "determineSentiment fullText =
     (let lowerText = toLowerCase fullText
      in if includes_str lowerText ''invest'' \<or> includes_str lowerText ''buy''
            \<or> includes_str lowerText ''bullish'' then bullish
         else if includes_str lowerText ''pass'' \<or> includes_str lowerText ''sell''
            \<or> includes_str lowerText ''bearish'' then bearish
         else neutral)"

definition analysisFailure :: AnalysisResult where
  "analysisFailure =
     \<lparr>markdown = ''Failed to generate analysis. Please try again.'',
      groundingChunks = None, sentiment = neutral\<rparr>"

definition analysisRequest :: "string \<Rightarrow> AnalysisMode \<Rightarrow> Request" where
  "analysisRequest symbol mode =
     (let modelName = (if mode = DEEP then ''gemini-3-pro-preview'' else ''gemini-2.5-flash'');
          instruction = (if mode = DEEP then deepSystemInstruction else quickSystemInstruction);
          prompt = (if mode = DEEP then deepPrompt symbol else quickPrompt symbol);
          thinking = (if mode = DEEP then Some 4096 else None)
      in \<lparr>model = modelName, contents = prompt, googleSearch = True,
          systemInstruction = Some instruction, thinkingBudget = thinking,
          responseMimeType = None, responseSchema = None\<rparr>)"

definition analyzeStock ::
  "(Request \<Rightarrow> Stream outcome) \<Rightarrow> string \<Rightarrow> AnalysisMode \<Rightarrow> 's Callback option \<Rightarrow> 's
     \<Rightarrow> AnalysisResult outcome \<times> 's" where
  "analyzeStock generateContentStream symbol mode onStream s =
     (case generateContentStream (analysisRequest symbol mode) of
        Throws \<Rightarrow> (Returns analysisFailure, s)
      | Returns result \<Rightarrow>
          (case forAwait onStream result [] None s of
             (Throws, s') \<Rightarrow> (Returns analysisFailure, s')
           | (Returns (fullText, finalResponse), s') \<Rightarrow>
               (Returns \<lparr>markdown = fullText,
                         groundingChunks = Some (lastGroundingChunks finalResponse),
                         sentiment = determineSentiment fullText\<rparr>, s')))"

section \<open>\<^verbatim>\<open>getForecast\<close>\<close>

definition contextPrompt :: "string \<Rightarrow> string" where
  \<open>contextPrompt symbol =
     ''Get the current price, currency, and exchange for '' @
     symbol @
     ''.\<newline>'' @
     ''    CRITICAL: Ensure you identify the correct currency (e.g. INR for Indian stocks, USD for US stocks).\<newline>'' @
     ''    Do not confuse the US ADR price with the local share price.''\<close>

definition forecastPrompt :: "string \<Rightarrow> string \<Rightarrow> string" where
  \<open>forecastPrompt ctx symbol =
     ''Based on this real-time context: \<newline>'' @
     ''    "'' @
     ctx @
     ''"\<newline>'' @
     ''    \<newline>'' @
     ''    Generate a 3-month price forecast for '' @
     symbol @
     ''.\<newline>'' @
     ''    Create 3 distinct scenarios: Bearish, Base, and Bullish.\<newline>'' @
     ''    Assign a probability to each (must sum to 100%).\<newline>'' @
     ''    Provide a specific price target for each scenario IN THE SAME CURRENCY as the context price.\<newline>'' @
     ''    Estimate the current price.\<newline>'' @
     ''    Estimate an overall confidence score (0-100).''\<close>

definition forecastSchema :: Schema where
  "forecastSchema =
     TypeObject
       [(''symbol'', TypeString None None),
        (''timeframe'', TypeString None None),
        (''currentPrice'', TypeNumber),
        (''confidenceScore'', TypeNumber),
        (''scenarios'',
           TypeArray
             (TypeObject
                [(''type'', TypeString (Some ''One of: Bearish, Base, Bullish'') None),
                 (''priceTarget'', TypeNumber),
                 (''probability'', TypeNumber),
                 (''reasoning'', TypeString None None)]
                [''type'', ''priceTarget'', ''probability'', ''reasoning''])
             None)]
       [''symbol'', ''scenarios'', ''confidenceScore'']"

definition contextRequest :: "string \<Rightarrow> Request" where
  "contextRequest symbol =
     \<lparr>model = ''gemini-2.5-flash'', contents = contextPrompt symbol, googleSearch = True,
      systemInstruction = None, thinkingBudget = None,
      responseMimeType = None, responseSchema = None\<rparr>"

definition forecastRequest :: "string option \<Rightarrow> string \<Rightarrow> Request" where
  "forecastRequest ctx symbol =
     \<lparr>model = ''gemini-3-pro-preview'', contents = forecastPrompt (interpolate ctx) symbol,
      googleSearch = False, systemInstruction = None, thinkingBudget = Some 2048,
      responseMimeType = Some ''application/json'', responseSchema = Some forecastSchema\<rparr>"

definition getForecast ::
  "(Request \<Rightarrow> Response outcome) \<Rightarrow> (string \<Rightarrow> json outcome) \<Rightarrow> string \<Rightarrow> json outcome" where
  "getForecast generateContent JSON_parse symbol =
     (case generateContent (contextRequest symbol) of
        Throws \<Rightarrow> Returns JNull
      | Returns contextResp \<Rightarrow>
          (let ctx = responseText contextResp
           in case generateContent (forecastRequest ctx symbol) of
                Throws \<Rightarrow> Returns JNull
              | Returns response \<Rightarrow>
                  (case responseText response of
                     None \<Rightarrow> Returns JNull
                   | Some t \<Rightarrow>
                       if t \<noteq> []
                       then (case JSON_parse t of Throws \<Rightarrow> Returns JNull | Returns v \<Rightarrow> Returns v)
                       else Returns JNull)))"

section \<open>\<^verbatim>\<open>getTopPicks\<close>\<close>

definition picksPrompt :: "string \<Rightarrow> string \<Rightarrow> string \<Rightarrow> string" where
  \<open>picksPrompt marketContext timeframe strategy =
     ''You are an expert Portfolio Manager.\<newline>'' @
     ''  Market: '' @
     marketContext @
     ''\<newline>'' @
     ''  Investment Horizon: '' @
     timeframe @
     ''\<newline>'' @
     ''  Selected Strategy: '' @
     strategy @
     ''\<newline>'' @
     ''\<newline>'' @
     ''  Using Google Search, identify 4 of the BEST stocks to buy right now that match this specific strategy and timeframe.\<newline>'' @
     ''  Get real-time prices.\<newline>'' @
     ''  Provide a structured JSON response.''\<close>

text \<open>The strategy chosen from the timeframe, the first statement of \<^verbatim>\<open>getTopPicks\<close>.\<close>

definition determineStrategy :: "string \<Rightarrow> string" where
  "determineStrategy timeframe =
     (let tf = toLowerCase timeframe
      in if includes_str tf ''day'' \<or> includes_str tf ''intraday'' then
           ''INTRA-DAY MOMENTUM. Focus on high relative volume, pre-market movers, earnings beats, and immediate volatility.''
         else if includes_str tf ''week'' then
           ''SWING TRADING. Focus on technical breakouts, sector rotation, and short-term news catalysts.''
         else if includes_str tf ''month'' then
           (if includes_str tf ''1'' \<or> includes_str tf ''2'' \<or> includes_str tf ''3'' then
              ''SHORT-TO-MEDIUM TERM TREND. Focus on earnings growth, relative strength (RSI), and moving average crossovers.''
            else if includes_str tf ''4'' \<or> includes_str tf ''5'' \<or> includes_str tf ''6'' then
              ''POSITION TRADING. Focus on macro trends, fundamental growth, and sustained sector leadership.''
            else
              ''TREND FOLLOWING. Focus on fundamental catalysts and technical trends.'')
         else if includes_str tf ''year'' then
           ''LONG TERM VALUE & COMPOUNDING. Focus on undervalued companies with wide moats, high ROIC, and durable competitive advantages (Buffett Style).''
         else
           ''BALANCED GROWTH & VALUE. Focus on companies with strong fundamentals and technical uptrends.'')"

definition picksSchema :: Schema where
  "picksSchema =
     TypeArray
       (TypeObject
          [(''symbol'', TypeString None None),
           (''name'', TypeString None None),
           (''price'', TypeString (Some ''Current price with currency symbol'') None),
           (''currency'', TypeString None None),
           (''action'', TypeString None (Some [''Buy'', ''Strong Buy'', ''Watch''])),
           (''reasoning'', TypeString (Some ''Why this fits the strategy and timeframe'') None),
           (''riskLevel'', TypeString None (Some [''High'', ''Medium'', ''Low''])),
           (''potentialUpside'', TypeString (Some ''Estimated % upside'') None),
           (''sources'',
              TypeArray (TypeString None None)
                (Some ''List of 1-2 key news sources or websites used to validate this pick''))]
          [''symbol'', ''name'', ''price'', ''reasoning'', ''riskLevel'', ''sources''])
       None"

record TopPicks =
  recommendations :: json
  strategyUsed :: string

definition picksRequest :: "Market \<Rightarrow> string \<Rightarrow> string \<Rightarrow> Request" where
  "picksRequest market timeframe strategy =
     (let marketContext =
            (if market = IN then ''Indian Stock Market (NSE/BSE). Prices in INR.''
             else ''US Stock Market (NYSE/NASDAQ). Prices in USD.'')
      in \<lparr>model = ''gemini-3-pro-preview'',
          contents = picksPrompt marketContext timeframe strategy, googleSearch = True,
          systemInstruction = None, thinkingBudget = None,
          responseMimeType = Some ''application/json'', responseSchema = Some picksSchema\<rparr>)"

definition getTopPicks ::
  "(Request \<Rightarrow> Response outcome) \<Rightarrow> (string \<Rightarrow> json outcome) \<Rightarrow> Market \<Rightarrow> string
     \<Rightarrow> TopPicks outcome" where
  "getTopPicks generateContent JSON_parse market timeframe =
     (let strategy = determineStrategy timeframe
      in case generateContent (picksRequest market timeframe strategy) of
           Throws \<Rightarrow> Returns \<lparr>recommendations = JArray [], strategyUsed = strategy\<rparr>
         | Returns response \<Rightarrow>
             (case responseText response of
                None \<Rightarrow> Returns \<lparr>recommendations = JArray [], strategyUsed = strategy\<rparr>
              | Some t \<Rightarrow>
                  if t \<noteq> []
                  then (case JSON_parse t of
                          Throws \<Rightarrow> Returns \<lparr>recommendations = JArray [], strategyUsed = strategy\<rparr>
                        | Returns v \<Rightarrow> Returns \<lparr>recommendations = v, strategyUsed = strategy\<rparr>)
                  else Returns \<lparr>recommendations = JArray [], strategyUsed = strategy\<rparr>))"

section \<open>Service behaviours used in the examples\<close>

text \<open>A response or chunk that carries a text and nothing else.\<close>

definition textOnly :: "string \<Rightarrow> Response" where
  "textOnly t = \<lparr>responseText = Some t, candidates = None\<rparr>"

text \<open>A service whose every call fails with a network error.\<close>

definition networkError :: "Request \<Rightarrow> 'a outcome" where
  "networkError req = Throws"

text \<open>A service that answers without a text, and one that answers with the empty text.\<close>

definition silentService :: "Request \<Rightarrow> Response outcome" where
  "silentService req = Returns \<lparr>responseText = None, candidates = None\<rparr>"

definition emptyService :: "Request \<Rightarrow> Response outcome" where
  "emptyService req = Returns (textOnly [])"

text \<open>\<^verbatim>\<open>JSON.parse\<close> as far as one text is concerned: the value it returns for that text.\<close>

definition parsesAs :: "string \<Rightarrow> json \<Rightarrow> string \<Rightarrow> json outcome" where
  "parsesAs txt v t = (if t = txt then Returns v else Throws)"

text \<open>A caller that keeps every text handed to \<^verbatim>\<open>onStream\<close>, in order.\<close>

definition recordPartial :: "(string list) Callback" where
  "recordPartial t calls = (Returns (), calls @ [t])"

text \<open>A caller that keeps the text handed to \<^verbatim>\<open>onStream\<close> and then throws.\<close>

definition recordThenThrow :: "(string list) Callback" where
  "recordThenThrow t calls = (Throws, calls @ [t])"

text \<open>The stream of the end-to-end scenario of the specification.\<close>

definition nvdaStream :: "Request \<Rightarrow> Stream outcome" where
  "nvdaStream req = Returns [Returns (textOnly ''NVDA looks ''), Returns (textOnly ''like a strong buy.'')]"

text \<open>A stream that delivers one chunk and then breaks.\<close>

definition brokenStream :: "Request \<Rightarrow> Stream outcome" where
  "brokenStream req = Returns [Returns (textOnly ''Strong buy''), Throws]"

text \<open>An analysis that advises to pass, and one that names both sides.\<close>

definition passStream :: "Request \<Rightarrow> Stream outcome" where
  "passStream req = Returns [Returns (textOnly ''I would pass on this stock.'')]"

definition mixedStream :: "Request \<Rightarrow> Stream outcome" where
  "mixedStream req = Returns [Returns (textOnly ''Buy now, ''), Returns (textOnly ''SELL later.'')]"

text \<open>A price reply that follows the response schema and quotes the price 0.\<close>

definition zeroQuoteText :: string where
  \<open>zeroQuoteText = ''{"price":0,"currency":"USD","exchange":"NASDAQ"}''\<close>

definition zeroQuote :: json where
  "zeroQuote =
     JObject [(''price'', JNumber 0), (''currency'', JString ''USD''),
              (''exchange'', JString ''NASDAQ'')]"

definition zeroQuoteService :: "Request \<Rightarrow> Response outcome" where
  "zeroQuoteService req = Returns (textOnly zeroQuoteText)"

text \<open>A price reply that follows the response schema, with a negative price and a currency
  that is not a three-letter code.\<close>

definition negativeQuoteText :: string where
  \<open>negativeQuoteText = ''{"price":-5,"currency":"DOLLARS","exchange":"NASDAQ"}''\<close>

definition negativeQuote :: json where
  "negativeQuote =
     JObject [(''price'', JNumber (- 5)), (''currency'', JString ''DOLLARS''),
              (''exchange'', JString ''NASDAQ'')]"

definition negativeQuoteService :: "Request \<Rightarrow> Response outcome" where
  "negativeQuoteService req = Returns (textOnly negativeQuoteText)"

text \<open>A reply that is not JSON.\<close>

definition proseService :: "Request \<Rightarrow> Response outcome" where
  "proseService req = Returns (textOnly ''I could not find that symbol.'')"

text \<open>A forecast reply that follows the response schema and holds a single scenario.\<close>

definition oneScenarioText :: string where
  \<open>oneScenarioText = ''{"symbol":"NVDA","confidenceScore":60,"scenarios":[{"type":"Base","priceTarget":100,"probability":100,"reasoning":"flat"}]}''\<close>

definition oneScenario :: json where
  "oneScenario =
     JObject [(''symbol'', JString ''NVDA''), (''confidenceScore'', JNumber 60),
              (''scenarios'',
                 JArray [JObject [(''type'', JString ''Base''), (''priceTarget'', JNumber 100),
                                  (''probability'', JNumber 100),
                                  (''reasoning'', JString ''flat'')]])]"

definition oneScenarioService :: "Request \<Rightarrow> Response outcome" where
  "oneScenarioService req =
     (if model req = ''gemini-2.5-flash'' then Returns (textOnly ''NVDA trades at 100 USD on NASDAQ.'')
      else Returns (textOnly oneScenarioText))"

section \<open>Strings: what \<^verbatim>\<open>toLowerCase\<close> and \<^verbatim>\<open>includes\<close> compute\<close>

text \<open>On code units, lowering adds 32 to an upper-case letter and nothing else.\<close>

lemma toLowerCase_char_code:
  "(of_char (toLowerCase_char c) :: nat) = (if isUpperCase c then of_char c + 32 else of_char c)"
proof (cases c)
  case (Char b0 b1 b2 b3 b4 b5 b6 b7)
  then show ?thesis
    by (cases b0; cases b1; cases b2; cases b3; cases b4; cases b5; cases b6; cases b7;
        simp add: toLowerCase_char_def isUpperCase_def)
qed

text \<open>
  \<open>includes_str\<close> is containment as a contiguous run, and on a lowered text it is
  containment up to letter case: some run of the text lowers to the keyword.
\<close>

lemma includes_str_sublist: "includes_str s k \<longleftrightarrow> sublist k s"
  by (induction s) (simp_all add: sublist_Cons_right)

lemma includes_str_iff: "includes_str s k \<longleftrightarrow> (\<exists>p q. s = p @ k @ q)"
  by (simp add: includes_str_sublist sublist_def)

lemma includes_toLowerCase_iff:
  "includes_str (toLowerCase s) k \<longleftrightarrow> (\<exists>p w q. s = p @ w @ q \<and> toLowerCase w = k)"
proof
  assume "includes_str (toLowerCase s) k"
  then obtain p' q' where "map toLowerCase_char s = p' @ (k @ q')"
    by (auto simp: includes_str_iff toLowerCase_def)
  then have "\<exists>us vs. s = us @ vs \<and> p' = map toLowerCase_char us \<and> k @ q' = map toLowerCase_char vs"
    by (simp add: map_eq_append_conv)
  then obtain p r where s: "s = p @ r" and r: "k @ q' = map toLowerCase_char r"
    by blast
  from r have "\<exists>us vs. r = us @ vs \<and> k = map toLowerCase_char us \<and> q' = map toLowerCase_char vs"
    by (simp add: append_eq_map_conv)
  then obtain w q where "r = w @ q" and "k = map toLowerCase_char w"
    by blast
  with s show "\<exists>p w q. s = p @ w @ q \<and> toLowerCase w = k"
    by (auto simp: toLowerCase_def)
next
  assume "\<exists>p w q. s = p @ w @ q \<and> toLowerCase w = k"
  then obtain p w q where "s = p @ w @ q" and "toLowerCase w = k"
    by blast
  then have "toLowerCase s = toLowerCase p @ k @ toLowerCase q"
    by (auto simp: toLowerCase_def)
  then show "includes_str (toLowerCase s) k"
    unfolding includes_str_iff by blast
qed

section \<open>The streaming loop\<close>

lemma tl_prefixes_Cons: "tl (prefixes (x # xs)) = [x] # map ((#) x) (tl (prefixes xs))"
  by (cases xs) simp_all

lemma forAwait_Throws:
  "Throws \<in> set evs \<Longrightarrow> fst (forAwait onStream evs fullText fr s) = Throws"
proof (induction evs arbitrary: fullText fr s)
  case Nil
  then show ?case by simp
next
  case (Cons ev evs)
  show ?case
  proof (cases ev)
    case Throws
    then show ?thesis by simp
  next
    case (Returns chunk)
    with Cons.prems have "Throws \<in> set evs" by simp
    then have IH: "\<And>fullText fr s. fst (forAwait onStream evs fullText fr s) = Throws"
      by (rule Cons.IH)
    show ?thesis
    proof (cases onStream)
      case None
      with Returns IH show ?thesis by (simp add: Let_def)
    next
      case (Some f)
      obtain r s' where f: "f (fullText @ chunkText chunk) s = (r, s')"
        by (cases "f (fullText @ chunkText chunk) s")
      with Returns Some IH show ?thesis by (cases r) (simp_all add: Let_def)
    qed
  qed
qed

lemma forAwait_None:
  "forAwait None (map Returns chunks) fullText fr s =
     (Returns (fullText @ concat (map chunkText chunks),
               if chunks = [] then fr else Some (last chunks)), s)"
  by (induction chunks arbitrary: fullText fr) (simp_all add: Let_def)

lemma forAwait_Some:
  assumes "\<forall>t s. fst (f t s) = Returns ()"
  shows "forAwait (Some f) (map Returns chunks) fullText fr s =
     (Returns (fullText @ concat (map chunkText chunks),
               if chunks = [] then fr else Some (last chunks)),
      foldl (\<lambda>s t. snd (f t s)) s
        (map (\<lambda>p. fullText @ concat p) (tl (prefixes (map chunkText chunks)))))"
proof (induction chunks arbitrary: fullText fr s)
  case Nil
  then show ?case by simp
next
  case (Cons c cs)
  obtain s' where f: "f (fullText @ chunkText c) s = (Returns (), s')"
    using assms by (metis prod.collapse)
  have step: "forAwait (Some f) (map Returns (c # cs)) fullText fr s =
              forAwait (Some f) (map Returns cs) (fullText @ chunkText c) (Some c) s'"
    using f by (simp add: Let_def)
  have pre: "map (\<lambda>p. fullText @ concat p) (tl (prefixes (map chunkText (c # cs)))) =
        (fullText @ chunkText c) #
          map (\<lambda>p. (fullText @ chunkText c) @ concat p) (tl (prefixes (map chunkText cs)))"
    by (simp only: list.map tl_prefixes_Cons) (simp add: comp_def)
  have s': "snd (f (fullText @ chunkText c) s) = s'"
    using f by simp
  show ?case
    by (subst step, subst Cons.IH, subst pre) (simp add: s')
qed

section \<open>The strategy label of \<^verbatim>\<open>getTopPicks\<close>\<close>

lemmas lower_simps = toLowerCase_def toLowerCase_char_def isUpperCase_def

lemma includes_intraday_day: "includes_str s ''intraday'' \<Longrightarrow> includes_str s ''day''"
proof -
  assume "includes_str s ''intraday''"
  then obtain p q where "s = p @ ''intraday'' @ q"
    by (auto simp: includes_str_iff)
  then have "s = (p @ ''intra'') @ ''day'' @ q"
    by simp
  then show ?thesis
    unfolding includes_str_iff by blast
qed

lemma getTopPicks_strategy:
  "\<exists>recs. getTopPicks g p m tf =
            Returns \<lparr>recommendations = recs, strategyUsed = determineStrategy tf\<rparr>"
  by (simp add: getTopPicks_def Let_def split: outcome.split option.split)

lemma determineStrategy_Intraday:
  "determineStrategy ''Intraday'' =
     ''INTRA-DAY MOMENTUM. Focus on high relative volume, pre-market movers, earnings beats, and immediate volatility.''"
  by (simp add: determineStrategy_def lower_simps)

text \<open>
  C7: the strategy label that getTopPicks returns depends on the timeframe string
  alone. Two calls with the same timeframe return the same label, whatever the market and
  whatever the service and the parser do in either call, and for the timeframe
  \<^verbatim>\<open>Intraday\<close> with the market US every call returns the intra-day momentum label.
\<close>

theorem getTopPicks_strategy_deterministic:
  "(\<exists>r r'. getTopPicks g p m tf = Returns r \<and> getTopPicks g' p' m' tf = Returns r'
            \<and> strategyUsed r = strategyUsed r')
   \<and> (\<exists>recs. getTopPicks g p US ''Intraday'' =
         Returns \<lparr>recommendations = recs,
                  strategyUsed = ''INTRA-DAY MOMENTUM. Focus on high relative volume, pre-market movers, earnings beats, and immediate volatility.''\<rparr>)"
proof
  obtain recs where a: "getTopPicks g p m tf =
      Returns \<lparr>recommendations = recs, strategyUsed = determineStrategy tf\<rparr>"
    using getTopPicks_strategy by blast
  obtain recs' where b: "getTopPicks g' p' m' tf =
      Returns \<lparr>recommendations = recs', strategyUsed = determineStrategy tf\<rparr>"
    using getTopPicks_strategy by blast
  show "\<exists>r r'. getTopPicks g p m tf = Returns r \<and> getTopPicks g' p' m' tf = Returns r'
            \<and> strategyUsed r = strategyUsed r'"
    unfolding a b by simp
next
  show "\<exists>recs. getTopPicks g p US ''Intraday'' =
         Returns \<lparr>recommendations = recs,
                  strategyUsed = ''INTRA-DAY MOMENTUM. Focus on high relative volume, pre-market movers, earnings beats, and immediate volatility.''\<rparr>"
    using getTopPicks_strategy [of g p US "''Intraday''"]
    by (simp only: determineStrategy_Intraday)
qed

text \<open>
  The same timeframe against a service that fails and one that answers in prose, for
  two markets.
\<close>

theorem getTopPicks_strategy_deterministic_witness:
  "\<exists>r r'. getTopPicks networkError (parsesAs [] JNull) US ''Intraday'' = Returns r
         \<and> getTopPicks proseService (parsesAs [] JNull) IN ''Intraday'' = Returns r'
         \<and> strategyUsed r = strategyUsed r'"
  using getTopPicks_strategy_deterministic
          [of networkError "parsesAs [] JNull" US "''Intraday''" proseService "parsesAs [] JNull" IN]
  by blast

text \<open>
  C8: when the lowered timeframe contains none of \<^verbatim>\<open>day\<close>, \<^verbatim>\<open>intraday\<close>, \<^verbatim>\<open>week\<close>,
  \<^verbatim>\<open>month\<close> and \<^verbatim>\<open>year\<close>, getTopPicks returns the default label, balanced growth and
  value.
\<close>

theorem getTopPicks_default_strategy:
  assumes "\<not> includes_str (toLowerCase timeframe) ''day''"
    and "\<not> includes_str (toLowerCase timeframe) ''intraday''"
    and "\<not> includes_str (toLowerCase timeframe) ''week''"
    and "\<not> includes_str (toLowerCase timeframe) ''month''"
    and "\<not> includes_str (toLowerCase timeframe) ''year''"
  shows "\<exists>recs. getTopPicks g p m timeframe =
           Returns \<lparr>recommendations = recs,
                    strategyUsed = ''BALANCED GROWTH & VALUE. Focus on companies with strong fundamentals and technical uptrends.''\<rparr>"
proof -
  have "determineStrategy timeframe =
          ''BALANCED GROWTH & VALUE. Focus on companies with strong fundamentals and technical uptrends.''"
    using assms by (simp add: determineStrategy_def)
  with getTopPicks_strategy [of g p m timeframe] show ?thesis
    by simp
qed

text \<open>
  The timeframe \<^verbatim>\<open>Quarterly\<close> matches no keyword.
\<close>

theorem getTopPicks_default_strategy_witness:
  "\<not> includes_str (toLowerCase ''Quarterly'') ''day''
   \<and> \<not> includes_str (toLowerCase ''Quarterly'') ''intraday''
   \<and> \<not> includes_str (toLowerCase ''Quarterly'') ''week''
   \<and> \<not> includes_str (toLowerCase ''Quarterly'') ''month''
   \<and> \<not> includes_str (toLowerCase ''Quarterly'') ''year''
   \<and> (\<exists>recs. getTopPicks networkError (parsesAs [] JNull) US ''Quarterly'' =
           Returns \<lparr>recommendations = recs,
                    strategyUsed = ''BALANCED GROWTH & VALUE. Focus on companies with strong fundamentals and technical uptrends.''\<rparr>)"
proof -
  have l: "toLowerCase ''Quarterly'' = ''quarterly''"
    by (simp add: lower_simps)
  have h1: "\<not> includes_str (toLowerCase ''Quarterly'') ''day''" unfolding l by simp
  have h2: "\<not> includes_str (toLowerCase ''Quarterly'') ''intraday''" unfolding l by simp
  have h3: "\<not> includes_str (toLowerCase ''Quarterly'') ''week''" unfolding l by simp
  have h4: "\<not> includes_str (toLowerCase ''Quarterly'') ''month''" unfolding l by simp
  have h5: "\<not> includes_str (toLowerCase ''Quarterly'') ''year''" unfolding l by simp
  from getTopPicks_default_strategy [OF h1 h2 h3 h4 h5, of networkError "parsesAs [] JNull" US]
    h1 h2 h3 h4 h5
  show ?thesis by blast
qed

lemma determineStrategy_12_months:
  "determineStrategy ''12 months'' =
     ''SHORT-TO-MEDIUM TERM TREND. Focus on earnings growth, relative strength (RSI), and moving average crossovers.''"
  by (simp add: determineStrategy_def lower_simps)

text \<open>
  C10: the choice among the month strategies looks only for digit characters in the
  lowered timeframe. Every timeframe that contains \<^verbatim>\<open>month\<close>, neither \<^verbatim>\<open>day\<close> nor
  \<^verbatim>\<open>week\<close>, and the character \<^verbatim>\<open>1\<close> gets the short-to-medium-term trend label; so does
  \<^verbatim>\<open>12 months\<close>, whose count of months is outside 1 to 3.
\<close>

theorem getTopPicks_month_digit_one:
  assumes "includes_str (toLowerCase timeframe) ''month''"
    and "\<not> includes_str (toLowerCase timeframe) ''day''"
    and "\<not> includes_str (toLowerCase timeframe) ''week''"
    and "includes_str (toLowerCase timeframe) ''1''"
  shows "(\<exists>recs. getTopPicks g p m timeframe =
           Returns \<lparr>recommendations = recs,
                    strategyUsed = ''SHORT-TO-MEDIUM TERM TREND. Focus on earnings growth, relative strength (RSI), and moving average crossovers.''\<rparr>)
       \<and> (\<exists>recs. getTopPicks g p m ''12 months'' =
           Returns \<lparr>recommendations = recs,
                    strategyUsed = ''SHORT-TO-MEDIUM TERM TREND. Focus on earnings growth, relative strength (RSI), and moving average crossovers.''\<rparr>)"
proof -
  have "\<not> includes_str (toLowerCase timeframe) ''intraday''"
    using assms(2) includes_intraday_day by blast
  with assms have "determineStrategy timeframe =
     ''SHORT-TO-MEDIUM TERM TREND. Focus on earnings growth, relative strength (RSI), and moving average crossovers.''"
    by (simp add: determineStrategy_def)
  with getTopPicks_strategy [of g p m timeframe]
       getTopPicks_strategy [of g p m "''12 months''"]
  show ?thesis
    by (simp only: determineStrategy_12_months)
qed

text \<open>
  The timeframe \<^verbatim>\<open>12 Months\<close>, written with a capital.
\<close>

theorem getTopPicks_month_digit_one_witness:
  "includes_str (toLowerCase ''12 Months'') ''month''
   \<and> \<not> includes_str (toLowerCase ''12 Months'') ''day''
   \<and> \<not> includes_str (toLowerCase ''12 Months'') ''week''
   \<and> includes_str (toLowerCase ''12 Months'') ''1''
   \<and> (\<exists>recs. getTopPicks networkError (parsesAs [] JNull) IN ''12 Months'' =
           Returns \<lparr>recommendations = recs,
                    strategyUsed = ''SHORT-TO-MEDIUM TERM TREND. Focus on earnings growth, relative strength (RSI), and moving average crossovers.''\<rparr>)"
proof -
  have l: "toLowerCase ''12 Months'' = ''12 months''"
    by (simp add: lower_simps)
  have h1: "includes_str (toLowerCase ''12 Months'') ''month''" unfolding l by simp
  have h2: "\<not> includes_str (toLowerCase ''12 Months'') ''day''" unfolding l by simp
  have h3: "\<not> includes_str (toLowerCase ''12 Months'') ''week''" unfolding l by simp
  have h4: "includes_str (toLowerCase ''12 Months'') ''1''" unfolding l by simp
  from getTopPicks_month_digit_one [OF h1 h2 h3 h4, of networkError "parsesAs [] JNull" IN]
    h1 h2 h3 h4
  show ?thesis by blast
qed

section \<open>What \<^verbatim>\<open>getLivePrice\<close> and \<^verbatim>\<open>getForecast\<close> return\<close>

text \<open>
  C1 as the specification states it does not hold: for a reply that follows the response
  schema and quotes the price 0, getLivePrice returns that quote, which is not the absent
  value and whose price is not positive; and for a reply with the price -5 and the
  currency \<^verbatim>\<open>DOLLARS\<close> it returns that quote, whose price is negative and whose currency
  has seven letters.
\<close>

theorem getLivePrice_zero_price:
  "getLivePrice zeroQuoteService (parsesAs zeroQuoteText zeroQuote) ''NVDA'' = Returns zeroQuote
   \<and> zeroQuote \<noteq> JNull
   \<and> jsonField zeroQuote ''price'' = Some (JNumber 0)
   \<and> \<not> (0 :: real) < 0
   \<and> getLivePrice negativeQuoteService (parsesAs negativeQuoteText negativeQuote) ''NVDA'' =
         Returns negativeQuote
   \<and> negativeQuote \<noteq> JNull
   \<and> jsonField negativeQuote ''price'' = Some (JNumber (- 5))
   \<and> \<not> (0 :: real) < - 5
   \<and> jsonField negativeQuote ''currency'' = Some (JString ''DOLLARS'')
   \<and> length ''DOLLARS'' \<noteq> 3"
  by (simp add: getLivePrice_def zeroQuoteService_def negativeQuoteService_def parsesAs_def
        textOnly_def zeroQuoteText_def zeroQuote_def negativeQuoteText_def negativeQuote_def)

text \<open>
  C1, amended: for every symbol, whenever the service replies with a non-empty text and
  \<^verbatim>\<open>JSON.parse\<close> returns a value for it, getLivePrice returns exactly that value, whatever
  its price and currency are: the code checks neither. In every case getLivePrice returns
  either the absent value \<^verbatim>\<open>null\<close> or such a parsed value.
\<close>

theorem getLivePrice_unvalidated:
  "(g (priceRequest symbol) = Returns response \<and> responseText response = Some t
      \<and> t \<noteq> [] \<and> p t = Returns v
    \<longrightarrow> getLivePrice g p symbol = Returns v)
   \<and> (getLivePrice g p symbol = Returns JNull
       \<or> (\<exists>response t v. g (priceRequest symbol) = Returns response
             \<and> responseText response = Some t \<and> t \<noteq> [] \<and> p t = Returns v
             \<and> getLivePrice g p symbol = Returns v))"
proof
  show "g (priceRequest symbol) = Returns response \<and> responseText response = Some t
      \<and> t \<noteq> [] \<and> p t = Returns v
    \<longrightarrow> getLivePrice g p symbol = Returns v"
    by (simp add: getLivePrice_def)
next
  show "getLivePrice g p symbol = Returns JNull
       \<or> (\<exists>response t v. g (priceRequest symbol) = Returns response
             \<and> responseText response = Some t \<and> t \<noteq> [] \<and> p t = Returns v
             \<and> getLivePrice g p symbol = Returns v)"
    by (auto simp: getLivePrice_def split: outcome.split option.split)
qed

text \<open>
  The reply with the price -5 and the currency \<^verbatim>\<open>DOLLARS\<close> is handed through as it is.
\<close>

theorem getLivePrice_unvalidated_witness:
  "negativeQuoteService (priceRequest ''NVDA'') = Returns (textOnly negativeQuoteText)
   \<and> responseText (textOnly negativeQuoteText) = Some negativeQuoteText
   \<and> negativeQuoteText \<noteq> []
   \<and> parsesAs negativeQuoteText negativeQuote negativeQuoteText = Returns negativeQuote
   \<and> getLivePrice negativeQuoteService (parsesAs negativeQuoteText negativeQuote) ''NVDA'' =
         Returns negativeQuote
   \<and> jsonField negativeQuote ''price'' = Some (JNumber (- 5))
   \<and> jsonField negativeQuote ''currency'' = Some (JString ''DOLLARS'')"
proof -
  have a: "negativeQuoteService (priceRequest ''NVDA'') = Returns (textOnly negativeQuoteText)"
    by (simp add: negativeQuoteService_def)
  have b: "responseText (textOnly negativeQuoteText) = Some negativeQuoteText"
    by (simp add: textOnly_def)
  have c: "negativeQuoteText \<noteq> []"
    by (simp add: negativeQuoteText_def)
  have d: "parsesAs negativeQuoteText negativeQuote negativeQuoteText = Returns negativeQuote"
    by (simp add: parsesAs_def)
  have e: "jsonField negativeQuote ''price'' = Some (JNumber (- 5))"
    and f: "jsonField negativeQuote ''currency'' = Some (JString ''DOLLARS'')"
    by (simp_all add: negativeQuote_def)
  from getLivePrice_unvalidated
         [where g = negativeQuoteService and symbol = "''NVDA''"
            and p = "parsesAs negativeQuoteText negativeQuote"
            and response = "textOnly negativeQuoteText" and t = negativeQuoteText
            and v = negativeQuote] a b c d
  have "getLivePrice negativeQuoteService (parsesAs negativeQuoteText negativeQuote) ''NVDA'' =
         Returns negativeQuote"
    by blast
  with a b c d e f show ?thesis
    by blast
qed

text \<open>
  C6: getLivePrice returns the absent value \<^verbatim>\<open>null\<close> when the service throws, when the
  reply has no text or the empty text, and when \<^verbatim>\<open>JSON.parse\<close> throws on the text. The
  call always returns and never throws. In particular the symbol \<^verbatim>\<open>ZZZZ\<close> against a
  service that fails with a network error gives the absent value.
\<close>

theorem getLivePrice_absent_on_failure:
  "(g (priceRequest symbol) = Throws \<longrightarrow> getLivePrice g p symbol = Returns JNull)
   \<and> (g (priceRequest symbol) = Returns response
        \<and> (responseText response = None \<or> responseText response = Some [])
        \<longrightarrow> getLivePrice g p symbol = Returns JNull)
   \<and> (g (priceRequest symbol) = Returns response \<and> responseText response = Some t
        \<and> p t = Throws \<longrightarrow> getLivePrice g p symbol = Returns JNull)
   \<and> (\<exists>v. getLivePrice g p symbol = Returns v)
   \<and> getLivePrice networkError p ''ZZZZ'' = Returns JNull"
  by (auto simp: getLivePrice_def networkError_def split: outcome.split option.split)

text \<open>
  Each failure at a concrete service: a network error, a reply without text, a reply
  with the empty text, and a reply in prose that is not JSON.
\<close>

theorem getLivePrice_absent_on_failure_witness:
  "(networkError (priceRequest ''ZZZZ'') :: Response outcome) = Throws
   \<and> getLivePrice networkError (parsesAs [] JNull) ''ZZZZ'' = Returns JNull
   \<and> silentService (priceRequest ''ZZZZ'') = Returns \<lparr>responseText = None, candidates = None\<rparr>
   \<and> getLivePrice silentService (parsesAs [] JNull) ''ZZZZ'' = Returns JNull
   \<and> emptyService (priceRequest ''ZZZZ'') = Returns \<lparr>responseText = Some [], candidates = None\<rparr>
   \<and> getLivePrice emptyService (parsesAs [] JNull) ''ZZZZ'' = Returns JNull
   \<and> proseService (priceRequest ''ZZZZ'') = Returns (textOnly ''I could not find that symbol.'')
   \<and> parsesAs zeroQuoteText zeroQuote ''I could not find that symbol.'' = Throws
   \<and> getLivePrice proseService (parsesAs zeroQuoteText zeroQuote) ''ZZZZ'' = Returns JNull"
proof -
  have a: "(networkError (priceRequest ''ZZZZ'') :: Response outcome) = Throws"
    by (simp add: networkError_def)
  have b: "silentService (priceRequest ''ZZZZ'') = Returns \<lparr>responseText = None, candidates = None\<rparr>"
    by (simp add: silentService_def)
  have c: "emptyService (priceRequest ''ZZZZ'') = Returns \<lparr>responseText = Some [], candidates = None\<rparr>"
    by (simp add: emptyService_def textOnly_def)
  have d: "proseService (priceRequest ''ZZZZ'') = Returns (textOnly ''I could not find that symbol.'')"
    by (simp add: proseService_def)
  have e: "parsesAs zeroQuoteText zeroQuote ''I could not find that symbol.'' = Throws"
    by (simp add: parsesAs_def zeroQuoteText_def)
  have t: "responseText (textOnly ''I could not find that symbol.'') = Some ''I could not find that symbol.''"
    by (simp add: textOnly_def)
  from getLivePrice_absent_on_failure
         [where g = networkError and symbol = "''ZZZZ''" and p = "parsesAs [] JNull"] a
  have 1: "getLivePrice networkError (parsesAs [] JNull) ''ZZZZ'' = Returns JNull"
    by blast
  from getLivePrice_absent_on_failure
         [where g = silentService and symbol = "''ZZZZ''" and p = "parsesAs [] JNull"
            and response = "\<lparr>responseText = None, candidates = None\<rparr>"] b
  have 2: "getLivePrice silentService (parsesAs [] JNull) ''ZZZZ'' = Returns JNull"
    by simp
  from getLivePrice_absent_on_failure
         [where g = emptyService and symbol = "''ZZZZ''" and p = "parsesAs [] JNull"
            and response = "\<lparr>responseText = Some [], candidates = None\<rparr>"] c
  have 3: "getLivePrice emptyService (parsesAs [] JNull) ''ZZZZ'' = Returns JNull"
    by simp
  from getLivePrice_absent_on_failure
         [where g = proseService and symbol = "''ZZZZ''"
            and p = "parsesAs zeroQuoteText zeroQuote"
            and response = "textOnly ''I could not find that symbol.''"
            and t = "''I could not find that symbol.''"] d e t
  have 4: "getLivePrice proseService (parsesAs zeroQuoteText zeroQuote) ''ZZZZ'' = Returns JNull"
    by blast
  from a b c d e 1 2 3 4 show ?thesis
    by blast
qed

text \<open>
  C2 as the specification states it does not hold: for a reply that follows the response schema and
  holds one scenario, of type Base, getForecast returns that forecast, which is not the
  absent value and does not have three scenarios.
\<close>

theorem getForecast_single_scenario:
  "getForecast oneScenarioService (parsesAs oneScenarioText oneScenario) ''NVDA'' = Returns oneScenario
   \<and> oneScenario \<noteq> JNull
   \<and> length (scenarios oneScenario) = 1
   \<and> map scenarioType (scenarios oneScenario) = [Some (JString ''Base'')]"
  by (simp add: getForecast_def oneScenarioService_def parsesAs_def textOnly_def
        contextRequest_def forecastRequest_def oneScenarioText_def oneScenario_def
        scenarios_def scenarioType_def)

text \<open>
  C2, amended: for every symbol, whenever the service replies to the second request with a
  non-empty text and \<^verbatim>\<open>JSON.parse\<close> returns a value for it, getForecast returns exactly
  that value, whatever the number of its scenarios and their types are: the code checks
  neither, nor the sum of the probabilities. In every case getForecast returns either the
  absent value \<^verbatim>\<open>null\<close> or such a parsed value.
\<close>

theorem getForecast_unvalidated:
  "(g (contextRequest symbol) = Returns contextResp
      \<and> g (forecastRequest (responseText contextResp) symbol) = Returns response
      \<and> responseText response = Some t \<and> t \<noteq> [] \<and> p t = Returns v
    \<longrightarrow> getForecast g p symbol = Returns v)
   \<and> (getForecast g p symbol = Returns JNull
       \<or> (\<exists>contextResp response t v. g (contextRequest symbol) = Returns contextResp
             \<and> g (forecastRequest (responseText contextResp) symbol) = Returns response
             \<and> responseText response = Some t \<and> t \<noteq> [] \<and> p t = Returns v
             \<and> getForecast g p symbol = Returns v))"
proof
  show "g (contextRequest symbol) = Returns contextResp
      \<and> g (forecastRequest (responseText contextResp) symbol) = Returns response
      \<and> responseText response = Some t \<and> t \<noteq> [] \<and> p t = Returns v
    \<longrightarrow> getForecast g p symbol = Returns v"
    by (simp add: getForecast_def)
next
  show "getForecast g p symbol = Returns JNull
       \<or> (\<exists>contextResp response t v. g (contextRequest symbol) = Returns contextResp
             \<and> g (forecastRequest (responseText contextResp) symbol) = Returns response
             \<and> responseText response = Some t \<and> t \<noteq> [] \<and> p t = Returns v
             \<and> getForecast g p symbol = Returns v)"
    by (auto simp: getForecast_def Let_def split: outcome.split option.split)
qed

text \<open>
  The reply with one scenario is handed through as it is.
\<close>

theorem getForecast_unvalidated_witness:
  "oneScenarioService (contextRequest ''NVDA'') =
     Returns (textOnly ''NVDA trades at 100 USD on NASDAQ.'')
   \<and> oneScenarioService
         (forecastRequest (responseText (textOnly ''NVDA trades at 100 USD on NASDAQ.'')) ''NVDA'') =
       Returns (textOnly oneScenarioText)
   \<and> responseText (textOnly oneScenarioText) = Some oneScenarioText
   \<and> oneScenarioText \<noteq> []
   \<and> parsesAs oneScenarioText oneScenario oneScenarioText = Returns oneScenario
   \<and> getForecast oneScenarioService (parsesAs oneScenarioText oneScenario) ''NVDA'' =
       Returns oneScenario
   \<and> length (scenarios oneScenario) = 1"
proof -
  have a: "oneScenarioService (contextRequest ''NVDA'') =
     Returns (textOnly ''NVDA trades at 100 USD on NASDAQ.'')"
    by (simp add: oneScenarioService_def contextRequest_def)
  have b: "oneScenarioService
         (forecastRequest (responseText (textOnly ''NVDA trades at 100 USD on NASDAQ.'')) ''NVDA'') =
       Returns (textOnly oneScenarioText)"
    by (simp add: oneScenarioService_def forecastRequest_def)
  have c: "responseText (textOnly oneScenarioText) = Some oneScenarioText"
    by (simp add: textOnly_def)
  have d: "oneScenarioText \<noteq> []"
    by (simp add: oneScenarioText_def)
  have e: "parsesAs oneScenarioText oneScenario oneScenarioText = Returns oneScenario"
    by (simp add: parsesAs_def)
  have f: "length (scenarios oneScenario) = 1"
    by (simp add: scenarios_def oneScenario_def)
  from getForecast_unvalidated
         [where g = oneScenarioService and symbol = "''NVDA''"
            and p = "parsesAs oneScenarioText oneScenario"
            and contextResp = "textOnly ''NVDA trades at 100 USD on NASDAQ.''"
            and response = "textOnly oneScenarioText" and t = oneScenarioText
            and v = oneScenario] a b c d e
  have "getForecast oneScenarioService (parsesAs oneScenarioText oneScenario) ''NVDA'' =
       Returns oneScenario"
    by blast
  with a b c d e f show ?thesis
    by blast
qed

section \<open>The result of \<^verbatim>\<open>analyzeStock\<close>\<close>

lemma determineSentiment_failure:
  "determineSentiment ''Failed to generate analysis. Please try again.'' = neutral"
  by (simp add: determineSentiment_def lower_simps)

lemma analyzeStock_cases:
  "(\<exists>s'. analyzeStock g symbol mode onStream s = (Returns analysisFailure, s')) \<or>
   (\<exists>fullText fr s'. analyzeStock g symbol mode onStream s =
       (Returns \<lparr>markdown = fullText, groundingChunks = Some (lastGroundingChunks fr),
                 sentiment = determineSentiment fullText\<rparr>, s'))"
  by (auto simp: analyzeStock_def split: outcome.split prod.split)

lemma analyzeStock_returns:
  "\<exists>r s'. analyzeStock g symbol mode onStream s = (Returns r, s')"
  using analyzeStock_cases [of g symbol mode onStream s] by blast

lemma analyzeStock_sentiment:
  assumes "analyzeStock g symbol mode onStream s = (Returns r, s')"
  shows "sentiment r = determineSentiment (markdown r)"
  using analyzeStock_cases [of g symbol mode onStream s] assms
  by (auto simp: analysisFailure_def determineSentiment_failure)

lemmas analysis_simps =
  analyzeStock_def textOnly_def chunkText_def lastGroundingChunks_def determineSentiment_def
  analysisFailure_def Let_def

text \<open>
  C3 with the bearish keywords of the specification does not hold: a text that contains \<^verbatim>\<open>pass\<close> and none of
  \<^verbatim>\<open>buy\<close>, \<^verbatim>\<open>invest\<close>, \<^verbatim>\<open>bullish\<close>, \<^verbatim>\<open>sell\<close>, \<^verbatim>\<open>bearish\<close> is classified bearish, not
  neutral.
\<close>

theorem analyzeStock_pass_is_bearish:
  "analyzeStock passStream ''NVDA'' QUICK (None :: unit Callback option) () =
     (Returns \<lparr>markdown = ''I would pass on this stock.'', groundingChunks = Some [],
               sentiment = bearish\<rparr>, ())
   \<and> \<not> includes_str (toLowerCase ''I would pass on this stock.'') ''buy''
   \<and> \<not> includes_str (toLowerCase ''I would pass on this stock.'') ''invest''
   \<and> \<not> includes_str (toLowerCase ''I would pass on this stock.'') ''bullish''
   \<and> \<not> includes_str (toLowerCase ''I would pass on this stock.'') ''sell''
   \<and> \<not> includes_str (toLowerCase ''I would pass on this stock.'') ''bearish''
   \<and> bearish \<noteq> neutral"
  by (simp add: analysis_simps passStream_def lower_simps)

text \<open>
  C3, amended: for every mode, stream and callback, analyzeStock returns a result whose
  sentiment is one of bullish, bearish and neutral, decided by the returned text up to
  letter case: bullish when it contains \<^verbatim>\<open>invest\<close>, \<^verbatim>\<open>buy\<close> or \<^verbatim>\<open>bullish\<close>; otherwise
  bearish when it contains \<^verbatim>\<open>pass\<close>, \<^verbatim>\<open>sell\<close> or \<^verbatim>\<open>bearish\<close>; otherwise neutral.
\<close>

theorem analyzeStock_sentiment_rule:
  "\<exists>r s'. analyzeStock g symbol mode onStream s = (Returns r, s')
     \<and> sentiment r \<in> {bullish, bearish, neutral}
     \<and> (includes_str (toLowerCase (markdown r)) ''invest''
          \<or> includes_str (toLowerCase (markdown r)) ''buy''
          \<or> includes_str (toLowerCase (markdown r)) ''bullish''
        \<longrightarrow> sentiment r = bullish)
     \<and> (\<not> (includes_str (toLowerCase (markdown r)) ''invest''
             \<or> includes_str (toLowerCase (markdown r)) ''buy''
             \<or> includes_str (toLowerCase (markdown r)) ''bullish'')
          \<and> (includes_str (toLowerCase (markdown r)) ''pass''
             \<or> includes_str (toLowerCase (markdown r)) ''sell''
             \<or> includes_str (toLowerCase (markdown r)) ''bearish'')
        \<longrightarrow> sentiment r = bearish)
     \<and> (\<not> (includes_str (toLowerCase (markdown r)) ''invest''
             \<or> includes_str (toLowerCase (markdown r)) ''buy''
             \<or> includes_str (toLowerCase (markdown r)) ''bullish'')
          \<and> \<not> (includes_str (toLowerCase (markdown r)) ''pass''
             \<or> includes_str (toLowerCase (markdown r)) ''sell''
             \<or> includes_str (toLowerCase (markdown r)) ''bearish'')
        \<longrightarrow> sentiment r = neutral)"
proof -
  obtain r s' where run: "analyzeStock g symbol mode onStream s = (Returns r, s')"
    using analyzeStock_returns [of g symbol mode onStream s] by blast
  have sent: "sentiment r = determineSentiment (markdown r)"
    using run by (rule analyzeStock_sentiment)
  have "sentiment r \<in> {bullish, bearish, neutral}"
    by (cases "sentiment r") simp_all
  with run sent show ?thesis
    by (auto simp: determineSentiment_def Let_def)
qed

text \<open>
  The three cases of the rule at concrete streams.
\<close>

theorem analyzeStock_sentiment_rule_witness:
  "(\<exists>s'. analyzeStock nvdaStream ''NVDA'' DEEP (Some recordPartial) [] =
       (Returns \<lparr>markdown = ''NVDA looks like a strong buy.'', groundingChunks = Some [],
                 sentiment = bullish\<rparr>, s'))
   \<and> (\<exists>s'. analyzeStock passStream ''NVDA'' DEEP (Some recordPartial) [] =
       (Returns \<lparr>markdown = ''I would pass on this stock.'', groundingChunks = Some [],
                 sentiment = bearish\<rparr>, s'))
   \<and> (\<exists>s'. analyzeStock networkError ''NVDA'' DEEP (Some recordPartial) [] =
       (Returns \<lparr>markdown = ''Failed to generate analysis. Please try again.'',
                 groundingChunks = None, sentiment = neutral\<rparr>, s'))"
proof -
  obtain r1 s1 where
    run1: "analyzeStock nvdaStream ''NVDA'' DEEP (Some recordPartial) [] = (Returns r1, s1)"
    and bull: "includes_str (toLowerCase (markdown r1)) ''invest''
          \<or> includes_str (toLowerCase (markdown r1)) ''buy''
          \<or> includes_str (toLowerCase (markdown r1)) ''bullish''
        \<longrightarrow> sentiment r1 = bullish"
    using analyzeStock_sentiment_rule [of nvdaStream "''NVDA''" DEEP "Some recordPartial" "[]"]
    by blast
  have m1: "markdown r1 = ''NVDA looks like a strong buy.''"
    and g1: "groundingChunks r1 = Some []"
    using run1 by (auto simp: analysis_simps nvdaStream_def recordPartial_def)
  have "includes_str (toLowerCase (markdown r1)) ''buy''"
    unfolding m1 by (simp add: lower_simps)
  with bull have "sentiment r1 = bullish"
    by blast
  with m1 g1 have "r1 = \<lparr>markdown = ''NVDA looks like a strong buy.'', groundingChunks = Some [],
                 sentiment = bullish\<rparr>"
    by simp
  with run1 have 1: "\<exists>s'. analyzeStock nvdaStream ''NVDA'' DEEP (Some recordPartial) [] =
       (Returns \<lparr>markdown = ''NVDA looks like a strong buy.'', groundingChunks = Some [],
                 sentiment = bullish\<rparr>, s')"
    by blast
  have 2: "\<exists>s'. analyzeStock passStream ''NVDA'' DEEP (Some recordPartial) [] =
       (Returns \<lparr>markdown = ''I would pass on this stock.'', groundingChunks = Some [],
                 sentiment = bearish\<rparr>, s')"
    by (simp add: analysis_simps passStream_def recordPartial_def lower_simps)
  have 3: "\<exists>s'. analyzeStock networkError ''NVDA'' DEEP (Some recordPartial) [] =
       (Returns \<lparr>markdown = ''Failed to generate analysis. Please try again.'',
                 groundingChunks = None, sentiment = neutral\<rparr>, s')"
    by (simp add: analysis_simps networkError_def)
  from 1 2 3 show ?thesis
    by blast
qed

text \<open>
  C4 as the specification states it, for every callback, does not hold: on the two chunks
  of the scenario a callback that keeps the text and then throws is called once, with the
  first chunk, and the returned text is the failure message, not the concatenation of the
  chunks.
\<close>

theorem analyzeStock_callback_throws:
  "analyzeStock nvdaStream ''NVDA'' QUICK (Some recordThenThrow) [] =
     (Returns \<lparr>markdown = ''Failed to generate analysis. Please try again.'',
                     groundingChunks = None, sentiment = neutral\<rparr>,
      [''NVDA looks ''])
   \<and> ''Failed to generate analysis. Please try again.'' \<noteq> ''NVDA looks '' @ ''like a strong buy.''
   \<and> [''NVDA looks ''] \<noteq> [''NVDA looks '', ''NVDA looks '' @ ''like a strong buy.'']"
  by (simp add: analysis_simps nvdaStream_def recordThenThrow_def)

text \<open>
  C4, amended: for every sequence of chunks that the stream delivers before it ends
  without a throw: when the callback never throws, analyzeStock adds the text of each
  chunk to the buffer and calls the callback with the buffer after each chunk, in order,
  and the returned text is the concatenation of the texts of all chunks; when no callback
  is given, the returned text is the same and nothing is called; when the callback throws
  at the first chunk, it is not called again and the result is the failure message. In
  particular the chunks \<^verbatim>\<open>NVDA looks \<close> and \<^verbatim>\<open>like a strong buy.\<close> with a callback that
  records its calls give the text \<^verbatim>\<open>NVDA looks like a strong buy.\<close>, the sentiment
  bullish, and two calls, with the first chunk and with the whole text.
\<close>

theorem analyzeStock_streams_buffer:
  assumes "generateContentStream (analysisRequest symbol mode) = Returns (map Returns chunks)"
  shows "((\<forall>t s. fst (onStream t s) = Returns ()) \<longrightarrow>
         analyzeStock generateContentStream symbol mode (Some onStream) s0 =
           (Returns \<lparr>markdown = concat (map chunkText chunks),
                     groundingChunks =
                       Some (lastGroundingChunks (if chunks = [] then None else Some (last chunks))),
                     sentiment = determineSentiment (concat (map chunkText chunks))\<rparr>,
            foldl (\<lambda>s t. snd (onStream t s)) s0
              (map concat (tl (prefixes (map chunkText chunks))))))
       \<and> analyzeStock generateContentStream symbol mode None s0 =
           (Returns \<lparr>markdown = concat (map chunkText chunks),
                     groundingChunks =
                       Some (lastGroundingChunks (if chunks = [] then None else Some (last chunks))),
                     sentiment = determineSentiment (concat (map chunkText chunks))\<rparr>, s0)
       \<and> (chunks \<noteq> [] \<and> fst (onStream (chunkText (hd chunks)) s0) = Throws \<longrightarrow>
         analyzeStock generateContentStream symbol mode (Some onStream) s0 =
           (Returns \<lparr>markdown = ''Failed to generate analysis. Please try again.'',
                     groundingChunks = None, sentiment = neutral\<rparr>,
            snd (onStream (chunkText (hd chunks)) s0)))
       \<and> analyzeStock nvdaStream ''NVDA'' QUICK (Some recordPartial) [] =
           (Returns \<lparr>markdown = ''NVDA looks like a strong buy.'', groundingChunks = Some [],
                     sentiment = bullish\<rparr>,
            [''NVDA looks '', ''NVDA looks like a strong buy.''])"
proof (intro conjI impI)
  assume nothrow: "\<forall>t s. fst (onStream t s) = Returns ()"
  have "forAwait (Some onStream) (map Returns chunks) [] None s0 =
     (Returns ([] @ concat (map chunkText chunks),
               if chunks = [] then None else Some (last chunks)),
      foldl (\<lambda>s t. snd (onStream t s)) s0
        (map (\<lambda>p. [] @ concat p) (tl (prefixes (map chunkText chunks)))))"
    using nothrow by (rule forAwait_Some)
  then show "analyzeStock generateContentStream symbol mode (Some onStream) s0 =
           (Returns \<lparr>markdown = concat (map chunkText chunks),
                     groundingChunks =
                       Some (lastGroundingChunks (if chunks = [] then None else Some (last chunks))),
                     sentiment = determineSentiment (concat (map chunkText chunks))\<rparr>,
            foldl (\<lambda>s t. snd (onStream t s)) s0
              (map concat (tl (prefixes (map chunkText chunks)))))"
    using assms by (simp add: analyzeStock_def)
next
  have "forAwait None (map Returns chunks) [] None s0 =
     (Returns ([] @ concat (map chunkText chunks),
               if chunks = [] then None else Some (last chunks)), s0)"
    by (rule forAwait_None)
  then show "analyzeStock generateContentStream symbol mode None s0 =
           (Returns \<lparr>markdown = concat (map chunkText chunks),
                     groundingChunks =
                       Some (lastGroundingChunks (if chunks = [] then None else Some (last chunks))),
                     sentiment = determineSentiment (concat (map chunkText chunks))\<rparr>, s0)"
    using assms by (simp add: analyzeStock_def)
next
  assume "chunks \<noteq> [] \<and> fst (onStream (chunkText (hd chunks)) s0) = Throws"
  then obtain c cs s' where chunks: "chunks = c # cs"
    and thr: "onStream (chunkText c) s0 = (Throws, s')"
    by (cases chunks; cases "onStream (chunkText (hd chunks)) s0") auto
  then show "analyzeStock generateContentStream symbol mode (Some onStream) s0 =
           (Returns \<lparr>markdown = ''Failed to generate analysis. Please try again.'',
                     groundingChunks = None, sentiment = neutral\<rparr>,
            snd (onStream (chunkText (hd chunks)) s0))"
    using assms by (simp add: analyzeStock_def analysisFailure_def Let_def)
next
  show "analyzeStock nvdaStream ''NVDA'' QUICK (Some recordPartial) [] =
           (Returns \<lparr>markdown = ''NVDA looks like a strong buy.'', groundingChunks = Some [],
                     sentiment = bullish\<rparr>,
            [''NVDA looks '', ''NVDA looks like a strong buy.''])"
    by (simp add: analysis_simps nvdaStream_def recordPartial_def lower_simps)
qed

text \<open>
  The scenario with a caller that records the calls, with no caller, and with a caller
  that throws.
\<close>

theorem analyzeStock_streams_buffer_witness:
  "nvdaStream (analysisRequest ''NVDA'' QUICK) =
     Returns (map Returns [textOnly ''NVDA looks '', textOnly ''like a strong buy.''])
   \<and> (\<forall>t s. fst (recordPartial t s) = Returns ())
   \<and> analyzeStock nvdaStream ''NVDA'' QUICK (Some recordPartial) [''earlier call''] =
       (Returns \<lparr>markdown = ''NVDA looks like a strong buy.'', groundingChunks = Some [],
                 sentiment = bullish\<rparr>,
        [''earlier call'', ''NVDA looks '', ''NVDA looks like a strong buy.''])
   \<and> analyzeStock nvdaStream ''NVDA'' QUICK (None :: (string list) Callback option) [''earlier call''] =
       (Returns \<lparr>markdown = ''NVDA looks like a strong buy.'', groundingChunks = Some [],
                 sentiment = bullish\<rparr>,
        [''earlier call''])
   \<and> [textOnly ''NVDA looks '', textOnly ''like a strong buy.''] \<noteq> []
   \<and> fst (recordThenThrow
              (chunkText (hd [textOnly ''NVDA looks '', textOnly ''like a strong buy.'']))
              [''earlier call'']) = Throws
   \<and> analyzeStock nvdaStream ''NVDA'' QUICK (Some recordThenThrow) [''earlier call''] =
       (Returns \<lparr>markdown = ''Failed to generate analysis. Please try again.'',
                     groundingChunks = None, sentiment = neutral\<rparr>,
        [''earlier call'', ''NVDA looks ''])"
proof -
  have h1: "nvdaStream (analysisRequest ''NVDA'' QUICK) =
     Returns (map Returns [textOnly ''NVDA looks '', textOnly ''like a strong buy.''])"
    by (simp add: nvdaStream_def)
  have h2: "\<forall>t s. fst (recordPartial t s) = Returns ()"
    by (simp add: recordPartial_def)
  have h3: "[textOnly ''NVDA looks '', textOnly ''like a strong buy.''] \<noteq> []
     \<and> fst (recordThenThrow
              (chunkText (hd [textOnly ''NVDA looks '', textOnly ''like a strong buy.'']))
              [''earlier call'']) = Throws"
    by (simp add: recordThenThrow_def)
  note rec = analyzeStock_streams_buffer
         [where generateContentStream = nvdaStream and symbol = "''NVDA''" and mode = QUICK
            and chunks = "[textOnly ''NVDA looks '', textOnly ''like a strong buy.'']"
            and onStream = recordPartial and ?s0.0 = "[''earlier call'']", OF h1]
  note thr = analyzeStock_streams_buffer
         [where generateContentStream = nvdaStream and symbol = "''NVDA''" and mode = QUICK
            and chunks = "[textOnly ''NVDA looks '', textOnly ''like a strong buy.'']"
            and onStream = recordThenThrow and ?s0.0 = "[''earlier call'']", OF h1]
  from rec h2
  have 1: "analyzeStock nvdaStream ''NVDA'' QUICK (Some recordPartial) [''earlier call''] =
       (Returns \<lparr>markdown = ''NVDA looks like a strong buy.'', groundingChunks = Some [],
                 sentiment = bullish\<rparr>,
        [''earlier call'', ''NVDA looks '', ''NVDA looks like a strong buy.''])"
    by (simp add: textOnly_def chunkText_def lastGroundingChunks_def determineSentiment_def
          recordPartial_def lower_simps)
  from rec
  have 2: "analyzeStock nvdaStream ''NVDA'' QUICK (None :: (string list) Callback option) [''earlier call''] =
       (Returns \<lparr>markdown = ''NVDA looks like a strong buy.'', groundingChunks = Some [],
                 sentiment = bullish\<rparr>,
        [''earlier call''])"
    by (simp add: textOnly_def chunkText_def lastGroundingChunks_def determineSentiment_def
          lower_simps)
  from thr h3
  have 3: "analyzeStock nvdaStream ''NVDA'' QUICK (Some recordThenThrow) [''earlier call''] =
       (Returns \<lparr>markdown = ''Failed to generate analysis. Please try again.'',
                     groundingChunks = None, sentiment = neutral\<rparr>,
        [''earlier call'', ''NVDA looks ''])"
    by (simp add: textOnly_def chunkText_def recordThenThrow_def)
  from h1 h2 h3 1 2 3 show ?thesis
    by blast
qed

text \<open>
  C5: when the service throws, on opening the stream or while the stream is read,
  analyzeStock does not throw: it returns the result with the fixed failure message and
  the sentiment neutral, for every symbol, mode and callback.
\<close>

theorem analyzeStock_failure:
  assumes "generateContentStream (analysisRequest symbol mode) = Throws
           \<or> (\<exists>events. generateContentStream (analysisRequest symbol mode) = Returns events
                 \<and> Throws \<in> set events)"
  shows "fst (analyzeStock generateContentStream symbol mode onStream s) =
           Returns \<lparr>markdown = ''Failed to generate analysis. Please try again.'',
                    groundingChunks = None, sentiment = neutral\<rparr>"
  using assms
proof
  assume "generateContentStream (analysisRequest symbol mode) = Throws"
  then show ?thesis
    by (simp add: analyzeStock_def analysisFailure_def)
next
  assume "\<exists>events. generateContentStream (analysisRequest symbol mode) = Returns events
                 \<and> Throws \<in> set events"
  then obtain events where
    ev: "generateContentStream (analysisRequest symbol mode) = Returns events"
    and thr: "Throws \<in> set events"
    by blast
  from thr have "fst (forAwait onStream events [] None s) = Throws"
    by (rule forAwait_Throws)
  then obtain s' where "forAwait onStream events [] None s = (Throws, s')"
    by (cases "forAwait onStream events [] None s") simp
  with ev show ?thesis
    by (simp add: analyzeStock_def analysisFailure_def)
qed

text \<open>
  A network error on opening the stream, and a stream that breaks after one chunk.
\<close>

theorem analyzeStock_failure_witness:
  "(networkError (analysisRequest ''NVDA'' QUICK) :: Stream outcome) = Throws
   \<and> fst (analyzeStock networkError ''NVDA'' QUICK (Some recordPartial) []) =
           Returns \<lparr>markdown = ''Failed to generate analysis. Please try again.'',
                    groundingChunks = None, sentiment = neutral\<rparr>
   \<and> brokenStream (analysisRequest ''NVDA'' DEEP) = Returns [Returns (textOnly ''Strong buy''), Throws]
   \<and> Throws \<in> set [Returns (textOnly ''Strong buy''), Throws]
   \<and> fst (analyzeStock brokenStream ''NVDA'' DEEP (Some recordPartial) []) =
           Returns \<lparr>markdown = ''Failed to generate analysis. Please try again.'',
                    groundingChunks = None, sentiment = neutral\<rparr>"
proof -
  have a: "(networkError (analysisRequest ''NVDA'' QUICK) :: Stream outcome) = Throws"
    by (simp add: networkError_def)
  have b: "brokenStream (analysisRequest ''NVDA'' DEEP) = Returns [Returns (textOnly ''Strong buy''), Throws]"
    by (simp add: brokenStream_def)
  have c: "Throws \<in> set [Returns (textOnly ''Strong buy''), Throws]"
    by simp
  from a have a': "(networkError (analysisRequest ''NVDA'' QUICK) :: Stream outcome) = Throws
           \<or> (\<exists>events. networkError (analysisRequest ''NVDA'' QUICK) = Returns events
                 \<and> Throws \<in> set events)"
    by blast
  from b c have b': "brokenStream (analysisRequest ''NVDA'' DEEP) = Throws
           \<or> (\<exists>events. brokenStream (analysisRequest ''NVDA'' DEEP) = Returns events
                 \<and> Throws \<in> set events)"
    by blast
  from analyzeStock_failure
         [where generateContentStream = networkError and symbol = "''NVDA''" and mode = QUICK
            and onStream = "Some recordPartial" and s = "[]", OF a']
       analyzeStock_failure
         [where generateContentStream = brokenStream and symbol = "''NVDA''" and mode = DEEP
            and onStream = "Some recordPartial" and s = "[]", OF b'] a b c
  show ?thesis
    by blast
qed

text \<open>
  C9: the bullish keywords take precedence. When the text that analyzeStock returns
  contains, up to letter case, one of \<^verbatim>\<open>invest\<close>, \<^verbatim>\<open>buy\<close>, \<^verbatim>\<open>bullish\<close> and also one of
  \<^verbatim>\<open>pass\<close>, \<^verbatim>\<open>sell\<close>, \<^verbatim>\<open>bearish\<close>, the sentiment is bullish.
\<close>

theorem analyzeStock_bullish_precedence:
  assumes "analyzeStock generateContentStream symbol mode onStream s = (Returns r, s')"
    and "includes_str (toLowerCase (markdown r)) ''invest''
         \<or> includes_str (toLowerCase (markdown r)) ''buy''
         \<or> includes_str (toLowerCase (markdown r)) ''bullish''"
    and "includes_str (toLowerCase (markdown r)) ''pass''
         \<or> includes_str (toLowerCase (markdown r)) ''sell''
         \<or> includes_str (toLowerCase (markdown r)) ''bearish''"
  shows "sentiment r = bullish"
proof -
  have "sentiment r = determineSentiment (markdown r)"
    using assms(1) by (rule analyzeStock_sentiment)
  with assms(2) show ?thesis
    by (auto simp: determineSentiment_def Let_def)
qed

text \<open>
  A text that says both to buy and to sell.
\<close>

theorem analyzeStock_bullish_precedence_witness:
  "analyzeStock mixedStream ''NVDA'' QUICK (None :: unit Callback option) () =
     (Returns \<lparr>markdown = ''Buy now, SELL later.'', groundingChunks = Some [],
               sentiment = bullish\<rparr>, ())
   \<and> includes_str (toLowerCase ''Buy now, SELL later.'') ''buy''
   \<and> includes_str (toLowerCase ''Buy now, SELL later.'') ''sell''"
proof -
  obtain r s' where
    run: "analyzeStock mixedStream ''NVDA'' QUICK (None :: unit Callback option) () = (Returns r, s')"
    using analyzeStock_returns [of mixedStream "''NVDA''" QUICK None "()"] by blast
  have m: "markdown r = ''Buy now, SELL later.''" and g: "groundingChunks r = Some []"
    using run by (auto simp: analysis_simps mixedStream_def)
  have l: "toLowerCase ''Buy now, SELL later.'' = ''buy now, sell later.''"
    by (simp add: lower_simps)
  have buy: "includes_str (toLowerCase ''Buy now, SELL later.'') ''buy''"
    unfolding l by simp
  have sell: "includes_str (toLowerCase ''Buy now, SELL later.'') ''sell''"
    unfolding l by simp
  from buy m have bull: "includes_str (toLowerCase (markdown r)) ''invest''
         \<or> includes_str (toLowerCase (markdown r)) ''buy''
         \<or> includes_str (toLowerCase (markdown r)) ''bullish''"
    by simp
  from sell m have bear: "includes_str (toLowerCase (markdown r)) ''pass''
         \<or> includes_str (toLowerCase (markdown r)) ''sell''
         \<or> includes_str (toLowerCase (markdown r)) ''bearish''"
    by simp
  have "sentiment r = bullish"
    using run bull bear by (rule analyzeStock_bullish_precedence)
  with m g have "r = \<lparr>markdown = ''Buy now, SELL later.'', groundingChunks = Some [],
               sentiment = bullish\<rparr>"
    by simp
  with run buy sell show ?thesis
    by simp
qed

end
